theory Spec2Isabelle
  imports Complex_Main "HOL-Library.Word" "HOL-Library.Signed_Division"
begin

unbundle bit_operations_syntax

section \<open>Machine integers of the Go source\<close>

text \<open>
  \<^verbatim>\<open>int64\<close> and \<^verbatim>\<open>time.Duration\<close> (an \<^verbatim>\<open>int64\<close> count of nanoseconds) are
  64-bit two's complement words: \<open>+\<close>, \<open>-\<close> and \<open>*\<close> wrap silently, comparisons are
  signed (\<open><s\<close>, \<open>\<le>s\<close>). \<^verbatim>\<open>MarshalFlags\<close> is a \<^verbatim>\<open>uint8\<close>.
\<close>

type_synonym i64 = "64 word"
type_synonym Duration = "64 word"
type_synonym MarshalFlags = "8 word"

text \<open>The run-time panics the modelled code can raise or pass on.\<close>

datatype panic =
    DivideByZero          \<comment> \<open>runtime error: integer divide by zero\<close>
  | UserPanic string      \<comment> \<open>a panic raised by caller-supplied code\<close>

text \<open>
  Go's \<^verbatim>\<open>/\<close> on signed integers truncates toward zero, wraps for the one
  overflowing quotient (most negative value divided by \<open>-1\<close>) and panics when the
  divisor is zero.
\<close>

definition sdiv64 :: "i64 \<Rightarrow> i64 \<Rightarrow> i64" where
  "sdiv64 a b = word_of_int (sint a sdiv sint b)"

definition go_div :: "i64 \<Rightarrow> i64 \<Rightarrow> panic + i64" where
  "go_div a b = (if b = 0 then Inl DivideByZero else Inr (sdiv64 a b))"

section \<open>The accumulator\<close>

text \<open>
  \<^verbatim>\<open>type Data struct { Samples int64; Mean, Max, Min time.Duration;
  Flags MarshalFlags; Next *Data; m2 time.Duration }\<close>.
  The \<^verbatim>\<open>Next\<close> pointer is an optional nested accumulator: the chain reachable
  from one accumulator is a finite list of distinct nodes exactly when it has no cycle,
  which is the precondition under which \<^verbatim>\<open>Update\<close> returns at all.
  The fields \<^verbatim>\<open>Max\<close> and \<^verbatim>\<open>Min\<close> are named \<open>Max_d\<close> and \<open>Min_d\<close> here.
\<close>

datatype Data = Data
  (Samples: i64)
  (Mean: Duration)
  (Max_d: Duration)
  (Min_d: Duration)
  (Flags: MarshalFlags)
  (Next: "Data option")
  (m2: Duration)

text \<open>\<^verbatim>\<open>&Data{}\<close>: every field zero, no chained accumulator.\<close>

definition fresh :: Data where
  "fresh = Data 0 0 0 0 0 None 0"

text \<open>
  \<^verbatim>\<open>func (d *Data) Update(sample time.Duration)\<close>. The receiver is mutated in place,
  so the model returns the accumulator as the call leaves it together with the panic, if
  any, that ended the call: the writes made before a panic stay.
\<close>

fun Update :: "Data \<Rightarrow> Duration \<Rightarrow> panic option \<times> Data" where
  "Update (Data samples mean mx mn flags nxt m) sample =
    (let mn1 = (if samples = 0 \<or> sample <s mn then sample else mn);
         mx1 = (if samples = 0 \<or> mx <s sample then sample else mx);
         samples1 = samples + 1;
         delta1 = sample - mean
     in case go_div delta1 samples1 of
          Inl p \<Rightarrow> (Some p, Data samples1 mean mx1 mn1 flags nxt m)
        | Inr q \<Rightarrow>
            (let mean1 = mean + q;
                 delta2 = sample - mean1;
                 m1 = m + delta1 * delta2
             in case nxt of
                  None \<Rightarrow> (None, Data samples1 mean1 mx1 mn1 flags None m1)
                | Some n \<Rightarrow>
                    (case Update n sample of
                       (p, n1) \<Rightarrow> (p, Data samples1 mean1 mx1 mn1 flags (Some n1) m1))))"

text \<open>
  Successive calls \<^verbatim>\<open>d.Update(s)\<close> for the samples of a sequence, in order; a panic ends
  the sequence of calls.
\<close>

fun Update_all :: "Data \<Rightarrow> Duration list \<Rightarrow> panic option \<times> Data" where
  "Update_all d [] = (None, d)"
| "Update_all d (s # ss) =
    (case Update d s of
       (Some p, d1) \<Rightarrow> (Some p, d1)
     | (None, d1) \<Rightarrow> Update_all d1 ss)"

text \<open>\<^verbatim>\<open>func (d *Data) Variance() time.Duration\<close>\<close>

definition Variance :: "Data \<Rightarrow> panic + Duration" where
  "Variance d = (if Samples d \<le>s 0 then Inr 0 else go_div (m2 d) (Samples d))"

text \<open>\<^verbatim>\<open>func (d *Data) SampleVariance() time.Duration\<close>\<close>

definition SampleVariance :: "Data \<Rightarrow> panic + Duration" where
  "SampleVariance d = (if Samples d \<le>s 1 then Inr 0 else go_div (m2 d) (Samples d - 1))"

text \<open>
  The finite values of \<^verbatim>\<open>float64\<close> (IEEE 754 binary64), as real numbers: a
  significand of at most 53 bits scaled by a power of two. \<open>nearest64 x y\<close> says that
  \<open>y\<close> is such a value and no other is closer to \<open>x\<close>, which is what rounding to
  nearest returns, whatever it does with ties.
\<close>

definition binary64 :: "real set" where
  "binary64 =
    {real_of_int m * 2 powr real_of_int e | m e. \<bar>m\<bar> < 2 ^ 53 \<and> - 1074 \<le> e \<and> e \<le> 971}"

definition nearest64 :: "real \<Rightarrow> real \<Rightarrow> bool" where
  "nearest64 x y \<longleftrightarrow> y \<in> binary64 \<and> (\<forall>z \<in> binary64. \<bar>y - x\<bar> \<le> \<bar>z - x\<bar>)"

text \<open>
  The conversion \<^verbatim>\<open>time.Duration(f)\<close> of a finite float: the fraction is discarded
  (truncation toward zero).
\<close>

definition Duration_of_float :: "real \<Rightarrow> Duration" where
  "Duration_of_float y = word_of_int (if 0 \<le> y then \<lfloor>y\<rfloor> else \<lceil>y\<rceil>)"

text \<open>
  \<^verbatim>\<open>func (d *Data) StdDev() time.Duration\<close>, that is
  \<^verbatim>\<open>time.Duration(math.Sqrt(float64(d.Variance())))\<close>. The conversion
  \<^verbatim>\<open>float64(v)\<close> and the library's \<^verbatim>\<open>math.Sqrt\<close> are parameters, given by their
  finite values. \<open>correctly_rounded_at\<close> is what IEEE 754 asks of the two at the
  variance \<open>v\<close>: each returns a binary64 value nearest to the exact result.
\<close>

definition StdDev :: "(Duration \<Rightarrow> real) \<Rightarrow> (real \<Rightarrow> real) \<Rightarrow> Data \<Rightarrow> panic + Duration" where
  "StdDev float64 math_Sqrt d =
    (case Variance d of
       Inl p \<Rightarrow> Inl p
     | Inr v \<Rightarrow> Inr (Duration_of_float (math_Sqrt (float64 v))))"

definition correctly_rounded_at ::
  "(Duration \<Rightarrow> real) \<Rightarrow> (real \<Rightarrow> real) \<Rightarrow> Duration \<Rightarrow> bool" where
  "correctly_rounded_at float64 math_Sqrt v \<longleftrightarrow>
     nearest64 (real_of_int (sint v)) (float64 v) \<and>
     nearest64 (sqrt (float64 v)) (math_Sqrt (float64 v))"

section \<open>Timing a function\<close>

text \<open>
  \<^verbatim>\<open>func (d *Data) TimeIt(fn func()) (delta time.Duration)\<close>.
  The environment is a world \<open>'w\<close> with a clock: \<open>time_Now\<close> reads it and
  \<open>time_Since w curr\<close> is the duration elapsed in world \<open>w\<close> since the reading \<open>curr\<close>.
  The timed function \<open>fn\<close> runs on the world and, being a closure, on the accumulator; it
  returns normally (\<open>None\<close>), panics (\<open>Some p\<close>), or never returns (the outer \<open>None\<close>).
  The deferred closure runs on both ways out of \<open>fn\<close>: it assigns the named result
  \<^verbatim>\<open>delta\<close> and calls \<^verbatim>\<open>d.Update(delta)\<close>. A panic of the deferred call replaces the
  one in flight; otherwise the panic of \<open>fn\<close> goes on, and a normal return yields
  \<^verbatim>\<open>delta\<close>.
\<close>

definition TimeIt ::
  "('w \<Rightarrow> 't) \<Rightarrow> ('w \<Rightarrow> 't \<Rightarrow> Duration) \<Rightarrow> (Data \<times> 'w \<Rightarrow> (panic option \<times> Data \<times> 'w) option)
    \<Rightarrow> Data \<Rightarrow> 'w \<Rightarrow> ((panic + Duration) \<times> Data \<times> 'w) option" where
  "TimeIt time_Now time_Since fn d w =
    (let curr = time_Now w
     in case fn (d, w) of
          None \<Rightarrow> None
        | Some (fn_panic, d1, w1) \<Rightarrow>
            (let delta = time_Since w1 curr;
                 (upd_panic, d2) = Update d1 delta
             in Some (case upd_panic of
                        Some p \<Rightarrow> Inl p
                      | None \<Rightarrow> (case fn_panic of Some p \<Rightarrow> Inl p | None \<Rightarrow> Inr delta),
                      d2, w1)))"

section \<open>Marshaling\<close>

text \<open>\<^verbatim>\<open>Variance MarshalFlags = 1 << iota\<close> and the three constants after it.\<close>

definition Variance_flag :: MarshalFlags where "Variance_flag = 1"
definition SampleVariance_flag :: MarshalFlags where "SampleVariance_flag = 2"
definition StdDev_flag :: MarshalFlags where "StdDev_flag = 4"
definition SampleStdDev_flag :: MarshalFlags where "SampleStdDev_flag = 8"

text \<open>\<^verbatim>\<open>type dataMarshaled struct\<close>: every field a pointer, \<^verbatim>\<open>nil\<close> when absent.\<close>

record dataMarshaled =
  dm_Samples :: "i64 option"
  dm_Mean :: "Duration option"
  dm_Max :: "Duration option"
  dm_Min :: "Duration option"
  dm_Variance :: "Duration option"
  dm_SampleVariance :: "Duration option"
  dm_StdDev :: "Duration option"
  dm_SampleStdDev :: "Duration option"

text \<open>\<^verbatim>\<open>&dataMarshaled{}\<close>\<close>

definition dataMarshaled_zero :: dataMarshaled where
  "dataMarshaled_zero =
    \<lparr>dm_Samples = None, dm_Mean = None, dm_Max = None, dm_Min = None,
     dm_Variance = None, dm_SampleVariance = None, dm_StdDev = None, dm_SampleStdDev = None\<rparr>"

text \<open>\<^verbatim>\<open>func (dm *dataMarshaled) toData(d *Data)\<close>\<close>

fun toData :: "dataMarshaled \<Rightarrow> Data \<Rightarrow> Data" where
  "toData dm (Data samples mean mx mn flags nxt m) =
    (let samples1 = (case dm_Samples dm of Some v \<Rightarrow> v | None \<Rightarrow> samples);
         mean1 = (case dm_Mean dm of Some v \<Rightarrow> v | None \<Rightarrow> mean);
         mx1 = (case dm_Max dm of Some v \<Rightarrow> v | None \<Rightarrow> mx);
         mn1 = (case dm_Min dm of Some v \<Rightarrow> v | None \<Rightarrow> mn);
         (fa, ma) =
           (case dm_SampleStdDev dm of
              None \<Rightarrow> (flags, m)
            | Some v \<Rightarrow> (flags OR SampleStdDev_flag,
                         if 1 <s samples1 then v * v * (samples1 - 1) else m));
         (fb, mb) =
           (case dm_StdDev dm of
              None \<Rightarrow> (fa, ma)
            | Some v \<Rightarrow> (fa OR StdDev_flag, v * v * samples1));
         (fc, mc) =
           (case dm_SampleVariance dm of
              None \<Rightarrow> (fb, mb)
            | Some v \<Rightarrow> (fb OR SampleVariance_flag,
                         if 1 <s samples1 then v * (samples1 - 1) else mb));
         (fd, md) =
           (case dm_Variance dm of
              None \<Rightarrow> (fc, mc)
            | Some v \<Rightarrow> (fc OR Variance_flag, v * samples1))
     in Data samples1 mean1 mx1 mn1 fd nxt md)"

text \<open>
  \<^verbatim>\<open>func (d *Data) UnmarshalJSON(text []byte) error\<close>. The decoder
  \<^verbatim>\<open>json.Unmarshal(text, dm)\<close> belongs to the standard library and is a parameter: it
  is handed the zero \<^verbatim>\<open>dataMarshaled\<close> and returns it as it left it, with the error if
  decoding failed.
\<close>

definition UnmarshalJSON ::
  "(string \<Rightarrow> dataMarshaled \<Rightarrow> 'e option \<times> dataMarshaled) \<Rightarrow> string \<Rightarrow> Data \<Rightarrow> 'e option \<times> Data" where
  "UnmarshalJSON json_Unmarshal text d =
    (if text = ''null'' then (None, d)
     else (case json_Unmarshal text dataMarshaled_zero of
             (Some err, dm) \<Rightarrow> (Some err, d)
           | (None, dm) \<Rightarrow> (None, toData dm d)))"

text \<open>
  \<^verbatim>\<open>func (d *Data) UnmarshalYAML(unmarshal func(interface{}) error) error\<close>, with the
  caller's \<^verbatim>\<open>unmarshal\<close> as the parameter.
\<close>

definition UnmarshalYAML ::
  "(dataMarshaled \<Rightarrow> 'e option \<times> dataMarshaled) \<Rightarrow> Data \<Rightarrow> 'e option \<times> Data" where
  "UnmarshalYAML unmarshal d =
    (case unmarshal dataMarshaled_zero of
       (Some err, dm) \<Rightarrow> (Some err, d)
     | (None, dm) \<Rightarrow> (None, toData dm d))"

section \<open>Exact arithmetic\<close>

text \<open>
  The range of \<^verbatim>\<open>int64\<close>, and the condition that no arithmetic step of one
  \<^verbatim>\<open>Update\<close> on the accumulator's own fields overflows: each intermediate value,
  computed in the integers, is again an \<^verbatim>\<open>int64\<close>.
\<close>

definition in_i64 :: "int \<Rightarrow> bool" where
  "in_i64 k \<longleftrightarrow> - (2 ^ 63) \<le> k \<and> k < 2 ^ 63"

definition Update_exact :: "Data \<Rightarrow> Duration \<Rightarrow> bool" where
  "Update_exact d sample =
    (let n = sint (Samples d) + 1;
         delta1 = sint sample - sint (Mean d);
         q = delta1 sdiv n;
         mean1 = sint (Mean d) + q;
         delta2 = sint sample - mean1
     in in_i64 n \<and> in_i64 delta1 \<and> in_i64 q \<and> in_i64 mean1 \<and> in_i64 delta2 \<and>
        in_i64 (delta1 * delta2) \<and> in_i64 (sint (m2 d) + delta1 * delta2))"

section \<open>Facts about truncating division\<close>

lemma in_i64_sint: "in_i64 (sint (w :: i64))"
  using sint_ge [of w] sint_lt [of w] by (simp add: in_i64_def)

lemma sint_word_of_int_exact: "in_i64 k \<Longrightarrow> sint (word_of_int k :: i64) = k"
  by (simp add: in_i64_def sint_sbintrunc' signed_take_bit_int_eq_self)

lemma abs_sdiv_le:
  fixes a n :: int
  shows "\<bar>a sdiv n\<bar> \<le> \<bar>a\<bar>"
proof -
  have up: "\<bar>a\<bar> div \<bar>n\<bar> \<le> \<bar>a\<bar>"
  proof (cases "a = 0")
    case True
    then show ?thesis by simp
  next
    case False
    then have "0 < \<bar>a\<bar>" by simp
    then show ?thesis by (rule int_div_le_self)
  qed
  have lo: "0 \<le> \<bar>a\<bar> div \<bar>n\<bar>"
    by (simp add: div_int_pos_iff)
  have "\<bar>a sdiv n\<bar> = \<bar>sgn a\<bar> * \<bar>sgn n\<bar> * (\<bar>a\<bar> div \<bar>n\<bar>)"
    using lo by (simp add: signed_divide_int_def abs_mult)
  also have "\<dots> \<le> 1 * 1 * (\<bar>a\<bar> div \<bar>n\<bar>)"
    using lo by (intro mult_right_mono mult_mono) (simp_all add: abs_sgn_eq)
  finally show ?thesis using up by simp
qed

text \<open>
  The quotient never passes the dividend, so the dividend and what is left of it after
  the quotient is taken away have the same sign.
\<close>

lemma sdiv_same_sign:
  fixes a n :: int
  shows "0 \<le> a * (a - a sdiv n)"
proof (cases "0 \<le> a")
  case True
  with abs_sdiv_le [of a n] have "0 \<le> a - a sdiv n" by simp
  with True show ?thesis by simp
next
  case False
  with abs_sdiv_le [of a n] have "a - a sdiv n \<le> 0" by simp
  with False show ?thesis by (simp add: mult_nonpos_nonpos)
qed

lemma sdiv_pos_between:
  fixes a n :: int
  assumes "0 < n"
  shows "min a 0 \<le> a sdiv n \<and> a sdiv n \<le> max a 0"
proof -
  have b: "\<bar>a sdiv n\<bar> \<le> \<bar>a\<bar>" by (rule abs_sdiv_le)
  have k: "0 \<le> \<bar>a\<bar> div \<bar>n\<bar>" by (simp add: div_int_pos_iff)
  show ?thesis
  proof (cases "0 \<le> a")
    case True
    then have "0 \<le> a sdiv n"
      using assms k by (simp add: signed_divide_int_def sgn_if)
    with b True show ?thesis by simp
  next
    case False
    then have "a sdiv n \<le> 0"
      using assms k by (simp add: signed_divide_int_def sgn_if)
    with b False show ?thesis by simp
  qed
qed

lemma in_i64_between: "in_i64 a \<Longrightarrow> min a 0 \<le> q \<Longrightarrow> q \<le> max a 0 \<Longrightarrow> in_i64 q"
  unfolding in_i64_def by linarith

lemma sint_sdiv64_pos:
  assumes "0 <s n"
  shows "sint (sdiv64 a n) = sint a sdiv sint n"
proof -
  have n: "0 < sint n" using assms by (simp add: word_sless_alt)
  have "in_i64 (sint a sdiv sint n)"
    using in_i64_sint [of a] sdiv_pos_between [OF n, of "sint a"]
    by (blast intro: in_i64_between)
  then show ?thesis by (simp add: sdiv64_def sint_word_of_int_exact)
qed

lemma sint_pred_gt1:
  assumes "1 <s (n :: i64)"
  shows "sint (n - 1) = sint n - 1" and "0 <s n - 1" and "n - 1 \<noteq> 0"
proof -
  have n: "1 < sint n" using assms by (simp add: word_sless_alt)
  have "in_i64 (sint n - 1)" using in_i64_sint [of n] n unfolding in_i64_def by linarith
  then have "sint (word_of_int (sint n - 1) :: i64) = sint n - 1"
    by (rule sint_word_of_int_exact)
  then show a: "sint (n - 1) = sint n - 1" by simp
  then show b: "0 <s n - 1" using n by (simp add: word_sless_alt)
  then show "n - 1 \<noteq> 0" by auto
qed

lemma sdiv64_one: "sdiv64 a 1 = a"
  by (simp add: sdiv64_def signed_divide_int_def sgn_mult_abs)

text \<open>Word arithmetic agrees with integer arithmetic whenever the integer result fits.\<close>

lemma sint_add_exact: "in_i64 (sint a + sint b) \<Longrightarrow> sint (a + b :: i64) = sint a + sint b"
  by (simp add: sint_word_add in_i64_def signed_take_bit_int_eq_self)

lemma sint_diff_exact: "in_i64 (sint a - sint b) \<Longrightarrow> sint (a - b :: i64) = sint a - sint b"
  by (simp add: sint_word_diff in_i64_def signed_take_bit_int_eq_self)

lemma sint_mult_exact: "in_i64 (sint a * sint b) \<Longrightarrow> sint (a * b :: i64) = sint a * sint b"
  by (simp add: sint_word_mult in_i64_def signed_take_bit_int_eq_self)

lemma sint_sdiv64_exact: "in_i64 (sint a sdiv sint b) \<Longrightarrow> sint (sdiv64 a b) = sint a sdiv sint b"
  by (simp add: sdiv64_def sint_word_of_int_exact)

lemma sint_of_nat_small: "n < 2 ^ 63 \<Longrightarrow> sint (of_nat n :: i64) = int n"
proof -
  assume "n < 2 ^ 63"
  then have "int n < 2 ^ 63" by (metis of_nat_less_iff of_nat_numeral of_nat_power)
  then have "in_i64 (int n)" by (simp add: in_i64_def)
  then have "sint (word_of_int (int n) :: i64) = int n" by (rule sint_word_of_int_exact)
  then show ?thesis by simp
qed

lemma of_nat_Suc_neq_0:
  assumes "Suc k < 2 ^ 64"
  shows "(of_nat k :: i64) + 1 \<noteq> 0"
proof -
  have e: "(of_nat k :: i64) + 1 = of_nat (Suc k)" by simp
  have "Suc k < 2 ^ LENGTH(64)" using assms by simp
  then have "(of_nat (Suc k) :: i64) \<noteq> 0" by (rule of_nat_neq_0 [OF zero_less_Suc])
  then show ?thesis unfolding e .
qed

lemma sint_min: "sint (if s <s mn then s else mn) = min (sint s) (sint mn)"
  by (simp add: word_sless_alt min_def)

lemma sint_max: "sint (if mx <s s then s else mx) = max (sint s) (sint mx)"
  by (simp add: word_sless_alt max_def)

section \<open>One step of Update\<close>

lemma Update_Samples: "Samples (snd (Update d s)) = Samples d + 1"
  by (cases d) (simp add: Let_def split: sum.split option.split prod.split)

lemma Update_Mean_m2:
  "Mean (snd (Update (Data samples mean mx mn flags nxt m) s)) =
     (if samples + 1 = 0 then mean else mean + sdiv64 (s - mean) (samples + 1)) \<and>
   m2 (snd (Update (Data samples mean mx mn flags nxt m) s)) =
     (if samples + 1 = 0 then m
      else m + (s - mean) * (s - (mean + sdiv64 (s - mean) (samples + 1))))"
  by (simp add: go_div_def Let_def split: option.split prod.split)

lemma Update_unchained:
  assumes "samples + 1 \<noteq> 0"
  shows "\<exists>mean1 m1. Update (Data samples mean mx mn flags None m) s =
    (None, Data (samples + 1) mean1
       (if samples = 0 \<or> mx <s s then s else mx)
       (if samples = 0 \<or> s <s mn then s else mn) flags None m1)"
  using assms by (simp add: go_div_def Let_def)

lemma Update_fresh: "Update fresh s = (None, Data 1 s s s 0 None 0)"
  by (simp add: fresh_def go_div_def sdiv64_one)

section \<open>Update on known samples\<close>

text \<open>
  C1. From a fresh accumulator, \<^verbatim>\<open>Update(50)\<close> then \<^verbatim>\<open>Update(25)\<close> gives
  Samples 2, Mean 38, Max 50, Min 25 and m2 325, and \<^verbatim>\<open>Update(50)\<close> then
  \<^verbatim>\<open>Update(75)\<close> gives Samples 2, Mean 62, Max 75, Min 50 and m2 325; neither call
  panics. The quotients \<open>-25 / 2 = -12\<close> and \<open>25 / 2 = 12\<close> are truncated toward zero.
\<close>

theorem Update_50_25_and_50_75:
  "Update_all fresh [50, 25] = (None, Data 2 38 50 25 0 None 325) \<and>
   Update_all fresh [50, 75] = (None, Data 2 62 75 50 0 None 325)"
  by (simp add: fresh_def go_div_def sdiv64_def word_sless_alt signed_divide_int_def)

section \<open>Variance and sample variance\<close>

text \<open>
  C2, as the code has it. In every accumulator state both operations return a value and
  never panic. \<^verbatim>\<open>Variance()\<close> is \<open>0\<close> when Samples is zero or negative and otherwise
  the quotient of m2 by Samples, truncated toward zero; \<^verbatim>\<open>SampleVariance()\<close> is \<open>0\<close>
  when Samples is at most 1 and otherwise the truncated quotient of m2 by Samples - 1.
  The quotients are stated in the integers: with a positive divisor nothing wraps.
\<close>

theorem Variance_SampleVariance_value:
  "(\<exists>v. Variance d = Inr v \<and>
        sint v = (if sint (Samples d) \<le> 0 then 0 else sint (m2 d) sdiv sint (Samples d))) \<and>
   (\<exists>v. SampleVariance d = Inr v \<and>
        sint v = (if sint (Samples d) \<le> 1 then 0
                  else sint (m2 d) sdiv (sint (Samples d) - 1)))"
proof (intro conjI)
  show "\<exists>v. Variance d = Inr v \<and>
        sint v = (if sint (Samples d) \<le> 0 then 0 else sint (m2 d) sdiv sint (Samples d))"
  proof (cases "Samples d \<le>s 0")
    case True
    then show ?thesis by (simp add: Variance_def word_sle_eq)
  next
    case False
    then have pos: "0 <s Samples d" by (simp add: word_sle_eq word_sless_alt)
    then have "Samples d \<noteq> 0" by auto
    with False pos show ?thesis
      by (simp add: Variance_def go_div_def sint_sdiv64_pos word_sle_eq)
  qed
  show "\<exists>v. SampleVariance d = Inr v \<and>
        sint v = (if sint (Samples d) \<le> 1 then 0
                  else sint (m2 d) sdiv (sint (Samples d) - 1))"
  proof (cases "Samples d \<le>s 1")
    case True
    then show ?thesis by (simp add: SampleVariance_def word_sle_eq)
  next
    case False
    then have gt: "1 <s Samples d" by (simp add: word_sle_eq word_sless_alt)
    from False sint_pred_gt1 [OF gt] show ?thesis
      by (simp add: SampleVariance_def go_div_def sint_sdiv64_pos word_sle_eq)
  qed
qed

text \<open>
  C2 as it is written reads \<^verbatim>\<open>Variance()\<close> as m2 divided by Samples in every state
  but Samples = 0. With Samples = -1 and m2 = 5 that quotient is \<open>-5\<close>, and the code
  returns \<open>0\<close>.
\<close>

theorem Variance_negative_Samples_counterexample:
  "Samples (Data (- 1) 0 0 0 0 None 5) \<noteq> 0 \<and>
   Variance (Data (- 1) 0 0 0 0 None 5)
     \<noteq> Inr (sdiv64 (m2 (Data (- 1) 0 0 0 0 None 5)) (Samples (Data (- 1) 0 0 0 0 None 5))) \<and>
   Variance (Data (- 1) 0 0 0 0 None 5) = Inr 0 \<and>
   sdiv64 (m2 (Data (- 1) 0 0 0 0 None 5)) (Samples (Data (- 1) 0 0 0 0 None 5)) = - 5"
  by (simp add: Variance_def sdiv64_def word_sle_eq signed_divide_int_def)

section \<open>Sequences of samples\<close>

lemma Update_all_counts:
  assumes "Next d = None" and "Samples d = of_nat k" and "k + length ss < 2 ^ 64"
  shows "fst (Update_all d ss) = None \<and> Next (snd (Update_all d ss)) = None \<and>
         Samples (snd (Update_all d ss)) = of_nat (k + length ss)"
  using assms
proof (induction ss arbitrary: d k)
  case Nil
  then show ?case by simp
next
  case (Cons s ss)
  obtain samples mean mx mn flags nxt m where d: "d = Data samples mean mx mn flags nxt m"
    by (cases d)
  with Cons.prems have nxt: "nxt = None" and sm: "samples = of_nat k" by simp_all
  from Cons.prems have "Suc k < 2 ^ 64" by simp
  then have "samples + 1 \<noteq> 0" unfolding sm by (rule of_nat_Suc_neq_0)
  from Update_unchained [OF this, of mean mx mn flags m s]
  obtain mean1 m1 where U: "Update (Data samples mean mx mn flags None m) s =
    (None, Data (samples + 1) mean1
       (if samples = 0 \<or> mx <s s then s else mx)
       (if samples = 0 \<or> s <s mn then s else mn) flags None m1)"
    by blast
  define d1 where "d1 = Data (samples + 1) mean1
       (if samples = 0 \<or> mx <s s then s else mx)
       (if samples = 0 \<or> s <s mn then s else mn) flags None m1"
  have u: "Update d s = (None, d1)" unfolding d nxt d1_def by (rule U)
  have n1: "Next d1 = None" and s1: "Samples d1 = samples + 1"
    by (simp_all add: d1_def)
  from s1 sm have s1': "Samples d1 = of_nat (Suc k)" by simp
  from Cons.prems have "Suc k + length ss < 2 ^ 64" by simp
  from Cons.IH [OF n1 s1' this] u show ?case by simp
qed

lemma Update_all_extremes:
  assumes "Next d = None" and "Samples d = of_nat k" and "0 < k" and "k + length ss < 2 ^ 64"
  shows "sint (Min_d (snd (Update_all d ss))) = fold min (map sint ss) (sint (Min_d d)) \<and>
         sint (Max_d (snd (Update_all d ss))) = fold max (map sint ss) (sint (Max_d d))"
  using assms
proof (induction ss arbitrary: d k)
  case Nil
  then show ?case by simp
next
  case (Cons s ss)
  obtain samples mean mx mn flags nxt m where d: "d = Data samples mean mx mn flags nxt m"
    by (cases d)
  with Cons.prems have nxt: "nxt = None" and sm: "samples = of_nat k" by simp_all
  from Cons.prems have k: "Suc k < 2 ^ 64" by simp
  then have nz1: "samples + 1 \<noteq> 0" unfolding sm by (rule of_nat_Suc_neq_0)
  from Cons.prems k have nz: "samples \<noteq> 0"
    unfolding sm using of_nat_neq_0 [of k, where 'a = 64] by simp
  from Update_unchained [OF nz1, of mean mx mn flags m s]
  obtain mean1 m1 where U: "Update (Data samples mean mx mn flags None m) s =
    (None, Data (samples + 1) mean1
       (if samples = 0 \<or> mx <s s then s else mx)
       (if samples = 0 \<or> s <s mn then s else mn) flags None m1)"
    by blast
  define d1 where "d1 = Data (samples + 1) mean1
       (if samples = 0 \<or> mx <s s then s else mx)
       (if samples = 0 \<or> s <s mn then s else mn) flags None m1"
  have u: "Update d s = (None, d1)" unfolding d nxt d1_def by (rule U)
  have n1: "Next d1 = None" and s1: "Samples d1 = samples + 1"
    and mn1: "Min_d d1 = (if s <s mn then s else mn)"
    and mx1: "Max_d d1 = (if mx <s s then s else mx)"
    using nz by (simp_all add: d1_def)
  have old: "Min_d d = mn" "Max_d d = mx" by (simp_all add: d)
  from s1 sm have s1': "Samples d1 = of_nat (Suc k)" by simp
  from Cons.prems have "Suc k + length ss < 2 ^ 64" by simp
  from Cons.IH [OF n1 s1' _ this] u show ?case
    by (simp add: mn1 mx1 sint_min sint_max old)
qed

text \<open>
  C4, as the code has it. For every sequence of fewer than \<open>2 ^ 64\<close> samples passed one
  by one to \<^verbatim>\<open>Update\<close> on a fresh accumulator, no call panics, the final Samples is the
  length of the sequence as a 64-bit count, which is the length itself when that is less
  than \<open>2 ^ 63\<close>, and when the sequence is not empty Min and Max are the least and the
  greatest of its samples (as signed durations).
\<close>

theorem Update_all_count_min_max:
  assumes "length ss < 2 ^ 64"
  shows "fst (Update_all fresh ss) = None \<and>
         Samples (snd (Update_all fresh ss)) = of_nat (length ss) \<and>
         (length ss < 2 ^ 63 \<longrightarrow>
            sint (Samples (snd (Update_all fresh ss))) = int (length ss)) \<and>
         (ss \<noteq> [] \<longrightarrow>
            sint (Min_d (snd (Update_all fresh ss))) = Min (sint ` set ss) \<and>
            sint (Max_d (snd (Update_all fresh ss))) = Max (sint ` set ss))"
proof -
  from assms have l: "0 + length ss < (2::nat) ^ 64" by simp
  have c: "fst (Update_all fresh ss) = None \<and>
      Samples (snd (Update_all fresh ss)) = of_nat (length ss)"
    using Update_all_counts [of fresh 0 ss] l by (simp add: fresh_def)
  have e: "sint (Min_d (snd (Update_all fresh ss))) = Min (sint ` set ss) \<and>
           sint (Max_d (snd (Update_all fresh ss))) = Max (sint ` set ss)" if "ss \<noteq> []"
  proof -
    from that obtain s rest where ss: "ss = s # rest" by (cases ss) auto
    from l have "1 + length rest < (2::nat) ^ 64" by (simp add: ss)
    from Update_all_extremes [of "Data 1 s s s 0 None 0" 1 rest, OF _ _ _ this]
    have "sint (Min_d (snd (Update_all (Data 1 s s s 0 None 0) rest)))
            = fold min (map sint rest) (sint s) \<and>
          sint (Max_d (snd (Update_all (Data 1 s s s 0 None 0) rest)))
            = fold max (map sint rest) (sint s)"
      by simp
    moreover have "Min (sint ` set ss) = fold min (map sint rest) (sint s)"
      using Min.set_eq_fold [of "sint s" "map sint rest"] by (simp add: ss)
    moreover have "Max (sint ` set ss) = fold max (map sint rest) (sint s)"
      using Max.set_eq_fold [of "sint s" "map sint rest"] by (simp add: ss)
    ultimately show ?thesis by (simp add: ss Update_fresh)
  qed
  from c e show ?thesis by (simp add: sint_of_nat_small)
qed

theorem Update_all_count_min_max_witness:
  "length [50, 25, 75 :: Duration] < 2 ^ 64 \<and>
   length [50, 25, 75 :: Duration] < 2 ^ 63 \<and>
   fst (Update_all fresh [50, 25, 75]) = None \<and>
   sint (Samples (snd (Update_all fresh [50, 25, 75]))) = 3 \<and>
   sint (Min_d (snd (Update_all fresh [50, 25, 75]))) = 25 \<and>
   sint (Max_d (snd (Update_all fresh [50, 25, 75]))) = 75"
proof -
  have h: "length [50, 25, 75 :: Duration] < 2 ^ 64" by simp
  have "Min (sint ` set [50, 25, 75 :: Duration]) = 25"
    and "Max (sint ` set [50, 25, 75 :: Duration]) = 75"
    by simp_all
  with Update_all_count_min_max [OF h] h show ?thesis by simp
qed

text \<open>
  C4 as it is written holds for every finite sequence. Samples is an \<^verbatim>\<open>int64\<close>:
  after \<open>2 ^ 63\<close> samples (here all zero) no call has panicked and the counter has
  wrapped to \<open>- (2 ^ 63)\<close>, which is not the number of samples.
\<close>

theorem Update_all_count_wraps_counterexample:
  "fst (Update_all fresh (replicate (2 ^ 63) 0)) = None \<and>
   sint (Samples (snd (Update_all fresh (replicate (2 ^ 63) 0)))) = - (2 ^ 63) \<and>
   sint (Samples (snd (Update_all fresh (replicate (2 ^ 63) 0))))
     \<noteq> int (length (replicate (2 ^ 63) (0 :: Duration)))"
proof -
  have "0 + length (replicate (2 ^ 63) (0 :: Duration)) < (2::nat) ^ 64" by simp
  from Update_all_counts [of fresh 0 "replicate (2 ^ 63) 0", OF _ _ this]
  have "fst (Update_all fresh (replicate (2 ^ 63) 0)) = None \<and>
     Samples (snd (Update_all fresh (replicate (2 ^ 63) 0))) = of_nat (2 ^ 63)"
    by (simp add: fresh_def)
  moreover have "sint (of_nat (2 ^ 63) :: i64) = - (2 ^ 63)"
    by simp
  ultimately show ?thesis by simp
qed

section \<open>The sum of squared differences\<close>

text \<open>
  C8. Let m2 be non-negative and let no arithmetic step of \<^verbatim>\<open>Update\<close> overflow. Then
  the accumulator the call leaves has a non-negative m2 that is at least the m2 before,
  and \<open>delta1 = sample - Mean\<close> before the call and \<open>delta2 = sample - Mean\<close> after it
  have a non-negative product: they have the same sign, or one of them is zero. The
  sample and the Samples count may be positive, zero or negative.
\<close>

theorem Update_m2_nonneg_mono:
  assumes m: "0 \<le>s m2 d" and ex: "Update_exact d sample"
  shows "0 \<le>s m2 (snd (Update d sample)) \<and> m2 d \<le>s m2 (snd (Update d sample)) \<and>
     0 \<le> sint (sample - Mean d) * sint (sample - Mean (snd (Update d sample)))"
proof (cases d)
  case (Data samples mean mx mn flags nxt m0)
  define n where "n = sint samples + 1"
  define delta1 where "delta1 = sint sample - sint mean"
  define q where "q = delta1 sdiv n"
  define mean1 where "mean1 = sint mean + q"
  define delta2 where "delta2 = sint sample - mean1"
  from ex Data have r: "in_i64 n" "in_i64 delta1" "in_i64 q" "in_i64 mean1" "in_i64 delta2"
      "in_i64 (delta1 * delta2)" "in_i64 (sint m0 + delta1 * delta2)"
    by (simp_all add: Update_exact_def Let_def n_def delta1_def q_def mean1_def delta2_def)
  from m Data have m0: "0 \<le> sint m0" by (simp add: word_sle_eq)
  have d1: "sint (sample - mean) = delta1"
    using r(2) by (simp add: delta1_def sint_diff_exact)
  have sq: "0 \<le> delta1 * delta1" by simp
  show ?thesis
  proof (cases "samples + 1 = 0")
    case True
    with Data m0 d1 sq show ?thesis
      using Update_Mean_m2 [of samples mean mx mn flags nxt m0 sample]
      by (simp add: word_sle_eq)
  next
    case False
    have sn: "sint (samples + 1) = n"
      using r(1) sint_add_exact [of samples 1] by (simp add: n_def)
    have sq': "sint (sdiv64 (sample - mean) (samples + 1)) = q"
      using r(3) sint_sdiv64_exact [of "sample - mean" "samples + 1"]
      by (simp add: q_def d1 sn)
    have sm: "sint (mean + sdiv64 (sample - mean) (samples + 1)) = mean1"
      using r(4) sint_add_exact [of mean "sdiv64 (sample - mean) (samples + 1)"]
      by (simp add: mean1_def sq')
    have d2: "sint (sample - (mean + sdiv64 (sample - mean) (samples + 1))) = delta2"
      using r(5) sint_diff_exact [of sample "mean + sdiv64 (sample - mean) (samples + 1)"]
      by (simp add: delta2_def sm)
    have pr: "sint ((sample - mean) * (sample - (mean + sdiv64 (sample - mean) (samples + 1))))
        = delta1 * delta2"
      using r(6) sint_mult_exact [of "sample - mean"
          "sample - (mean + sdiv64 (sample - mean) (samples + 1))"]
      by (simp add: d1 d2)
    have su: "sint (m0 + (sample - mean) * (sample - (mean + sdiv64 (sample - mean) (samples + 1))))
        = sint m0 + delta1 * delta2"
      using r(7) sint_add_exact [of m0
          "(sample - mean) * (sample - (mean + sdiv64 (sample - mean) (samples + 1)))"]
      by (simp add: pr)
    have "delta2 = delta1 - delta1 sdiv n"
      by (simp add: delta2_def mean1_def q_def delta1_def)
    then have nonneg: "0 \<le> delta1 * delta2"
      using sdiv_same_sign [of delta1 n] by simp
    from False Data m0 nonneg show ?thesis
      using Update_Mean_m2 [of samples mean mx mn flags nxt m0 sample]
      by (simp add: word_sle_eq su d1 d2)
  qed
qed

theorem Update_m2_nonneg_mono_witness:
  "0 \<le>s m2 (Data 1 50 50 50 0 None 0) \<and> Update_exact (Data 1 50 50 50 0 None 0) 25 \<and>
   0 \<le>s m2 (snd (Update (Data 1 50 50 50 0 None 0) 25)) \<and>
   m2 (Data 1 50 50 50 0 None 0) \<le>s m2 (snd (Update (Data 1 50 50 50 0 None 0) 25)) \<and>
   m2 (snd (Update (Data 1 50 50 50 0 None 0) 25)) = 325"
proof -
  have a: "0 \<le>s m2 (Data 1 50 50 50 0 None 0)" by simp
  have b: "Update_exact (Data 1 50 50 50 0 None 0) 25"
    by (simp add: Update_exact_def in_i64_def signed_divide_int_def)
  have c: "m2 (snd (Update (Data 1 50 50 50 0 None 0) 25)) = 325"
    by (simp add: go_div_def sdiv64_def signed_divide_int_def)
  from Update_m2_nonneg_mono [OF a b] a b c show ?thesis by simp
qed

section \<open>Chained accumulators\<close>

text \<open>
  Forwarding. When \<^verbatim>\<open>Next\<close> is set and Samples is not \<open>-1\<close> before the call,
  \<^verbatim>\<open>Update\<close> passes the same sample to the chained accumulator: the chained accumulator
  it leaves is the one \<^verbatim>\<open>Update\<close> with that sample leaves, and the call panics exactly
  when the chained call does. One sample \<open>s\<close> given to a fresh accumulator whose
  \<^verbatim>\<open>Next\<close> is fresh leaves both with Samples 1, Mean, Max and Min \<open>s\<close>, and m2 0.
\<close>

lemma Update_forwards_to_Next:
  "(Samples d \<noteq> - 1 \<and> Next d = Some n \<longrightarrow>
      fst (Update d s) = fst (Update n s) \<and>
      Next (snd (Update d s)) = Some (snd (Update n s))) \<and>
   Update (Data 0 0 0 0 0 (Some fresh) 0) s
     = (None, Data 1 s s s 0 (Some (Data 1 s s s 0 None 0)) 0)"
proof (intro conjI impI)
  assume a: "Samples d \<noteq> - 1 \<and> Next d = Some n"
  obtain samples mean mx mn flags nxt m where d: "d = Data samples mean mx mn flags nxt m"
    by (cases d)
  with a have "samples + 1 \<noteq> 0" "nxt = Some n"
    by (simp_all add: eq_neg_iff_add_eq_0)
  then have "fst (Update d s) = fst (Update n s) \<and>
      Next (snd (Update d s)) = Some (snd (Update n s))"
    unfolding d by (simp add: go_div_def Let_def split: prod.split)
  then show "fst (Update d s) = fst (Update n s)"
    and "Next (snd (Update d s)) = Some (snd (Update n s))"
    by simp_all
next
  show "Update (Data 0 0 0 0 0 (Some fresh) 0) s
     = (None, Data 1 s s s 0 (Some (Data 1 s s s 0 None 0)) 0)"
    by (simp add: fresh_def go_div_def sdiv64_one)
qed

lemma Update_forwards_to_Next_example:
  "Samples (Data 1 50 50 50 0 (Some (Data 3 10 20 5 0 None 7)) 0) \<noteq> - 1 \<and>
   Next (Data 1 50 50 50 0 (Some (Data 3 10 20 5 0 None 7)) 0) = Some (Data 3 10 20 5 0 None 7) \<and>
   fst (Update (Data 1 50 50 50 0 (Some (Data 3 10 20 5 0 None 7)) 0) 25) = None \<and>
   Next (snd (Update (Data 1 50 50 50 0 (Some (Data 3 10 20 5 0 None 7)) 0) 25))
     = Some (snd (Update (Data 3 10 20 5 0 None 7) 25)) \<and>
   snd (Update (Data 3 10 20 5 0 None 7) 25) = Data 4 13 25 5 0 None 187"
proof -
  have u: "Update (Data 3 10 20 5 0 None 7) 25 = (None, Data 4 13 25 5 0 None 187)"
    by (simp add: go_div_def sdiv64_def word_sless_alt signed_divide_int_def)
  let ?D = "Data 1 50 50 50 0 (Some (Data 3 10 20 5 0 None 7)) 0"
  let ?N = "Data 3 10 20 5 0 None 7"
  have h: "Samples ?D \<noteq> - 1 \<and> Next ?D = Some ?N" by simp
  with Update_forwards_to_Next [of ?D ?N 25]
  have "fst (Update ?D 25) = fst (Update ?N 25) \<and>
      Next (snd (Update ?D 25)) = Some (snd (Update ?N 25))"
    by blast
  then have "fst (Update ?D 25) = None \<and> Next (snd (Update ?D 25)) = Some (snd (Update ?N 25))"
    by (simp only: u fst_conv)
  with h u show ?thesis by (simp only: snd_conv simp_thms)
qed

text \<open>
  C5. An accumulator with \<^verbatim>\<open>Next\<close> set is to pass every sample on to the chained
  accumulator. With Samples = -1 the code does not: the increment makes the divisor
  zero, \<^verbatim>\<open>Update\<close> panics at its division with Samples and Max already written and
  Mean and m2 not, and the chained accumulator stays fresh, where a forwarded sample 5
  would have left it with Samples 1. \<^verbatim>\<open>Update\<close> has no guard on its divisor, as
  \<^verbatim>\<open>Variance\<close> and \<^verbatim>\<open>SampleVariance\<close> have.
\<close>

theorem Update_divide_by_zero_skips_Next:
  "Update (Data (- 1) 0 0 0 0 (Some fresh) 0) 5
     = (Some DivideByZero, Data 0 0 5 0 0 (Some fresh) 0) \<and>
   Update fresh 5 = (None, Data 1 5 5 5 0 None 0) \<and>
   Next (snd (Update (Data (- 1) 0 0 0 0 (Some fresh) 0) 5)) \<noteq> Some (snd (Update fresh 5))"
  by (simp add: fresh_def go_div_def word_sless_alt sdiv64_one)

section \<open>TimeIt\<close>

text \<open>
  Whenever the timed function comes back, normally or by a panic, \<^verbatim>\<open>TimeIt\<close> leaves
  the accumulator that one call of \<^verbatim>\<open>Update\<close> with the elapsed duration leaves (so
  Samples has grown by exactly one). If that call does not itself panic, \<^verbatim>\<open>TimeIt\<close>
  returns the elapsed duration when the function returned normally, and panics with the
  function's own panic when it panicked. A value is returned only then, and it is the
  elapsed duration.
\<close>

lemma TimeIt_updates_once:
  assumes "fn (d, w) = Some (fn_panic, d1, w1)"
  shows "\<exists>exit.
      TimeIt time_Now time_Since fn d w
        = Some (exit, snd (Update d1 (time_Since w1 (time_Now w))), w1) \<and>
      (fst (Update d1 (time_Since w1 (time_Now w))) = None \<longrightarrow>
         exit = (case fn_panic of
                   None \<Rightarrow> Inr (time_Since w1 (time_Now w))
                 | Some p \<Rightarrow> Inl p)) \<and>
      (\<forall>r. exit = Inr r \<longrightarrow> r = time_Since w1 (time_Now w) \<and> fn_panic = None) \<and>
      Samples (snd (Update d1 (time_Since w1 (time_Now w)))) = Samples d1 + 1"
  using assms
  by (auto simp: TimeIt_def Let_def Update_Samples split: prod.split option.split)

lemma TimeIt_updates_once_example:
  "(\<lambda>(d, w). Some (None, d, w + 7)) (fresh, 100 :: nat) = Some (None, fresh, 107) \<and>
   TimeIt (\<lambda>w. w) (\<lambda>w c. of_nat (w - c)) (\<lambda>(d, w). Some (None, d, w + 7)) fresh (100 :: nat)
     = Some (Inr 7, Data 1 7 7 7 0 None 0, 107) \<and>
   (\<lambda>(d, w). Some (Some (UserPanic ''boom''), d, w + 7)) (fresh, 100 :: nat)
     = Some (Some (UserPanic ''boom''), fresh, 107) \<and>
   TimeIt (\<lambda>w. w) (\<lambda>w c. of_nat (w - c))
       (\<lambda>(d, w). Some (Some (UserPanic ''boom''), d, w + 7)) fresh (100 :: nat)
     = Some (Inl (UserPanic ''boom''), Data 1 7 7 7 0 None 0, 107)"
proof -
  have u: "Update fresh 7 = (None, Data 1 7 7 7 0 None 0)"
    by (rule Update_fresh)
  have a: "(\<lambda>(d, w). Some (None, d, w + 7)) (fresh, 100 :: nat) = Some (None, fresh, 107) \<and>
   TimeIt (\<lambda>w. w) (\<lambda>w c. of_nat (w - c)) (\<lambda>(d, w). Some (None, d, w + 7)) fresh (100 :: nat)
     = Some (Inr 7, Data 1 7 7 7 0 None 0, 107)"
    using TimeIt_updates_once [where fn = "\<lambda>(d, w). Some (None, d, w + 7)" and d = fresh
        and w = "100 :: nat" and fn_panic = None and ?d1.0 = fresh and ?w1.0 = 107
        and time_Now = "\<lambda>w. w" and time_Since = "\<lambda>w c. of_nat (w - c)"]
    by (simp add: u)
  have b: "(\<lambda>(d, w). Some (Some (UserPanic ''boom''), d, w + 7)) (fresh, 100 :: nat)
     = Some (Some (UserPanic ''boom''), fresh, 107) \<and>
   TimeIt (\<lambda>w. w) (\<lambda>w c. of_nat (w - c))
       (\<lambda>(d, w). Some (Some (UserPanic ''boom''), d, w + 7)) fresh (100 :: nat)
     = Some (Inl (UserPanic ''boom''), Data 1 7 7 7 0 None 0, 107)"
    using TimeIt_updates_once [where fn = "\<lambda>(d, w). Some (Some (UserPanic ''boom''), d, w + 7)"
        and d = fresh and w = "100 :: nat" and fn_panic = "Some (UserPanic ''boom'')"
        and ?d1.0 = fresh and ?w1.0 = 107
        and time_Now = "\<lambda>w. w" and time_Since = "\<lambda>w c. of_nat (w - c)"]
    by (simp add: u)
  from a b show ?thesis by simp
qed

text \<open>
  C6. \<^verbatim>\<open>TimeIt\<close> is to fold the elapsed duration into the accumulator on every way out
  of the timed function, to return that duration when the function returned, and to let
  the function's panic go on when it panicked. On an accumulator with Samples = -1 the
  code does neither: the deferred \<^verbatim>\<open>Update\<close> panics at its division by the incremented
  count, so that after a function that returned normally \<^verbatim>\<open>TimeIt\<close> panics with the
  division error in place of returning the 7 elapsed units, after a function that
  panicked the division error replaces the function's own panic, and in both cases
  Mean and m2 are left without the sample.
\<close>

theorem TimeIt_divide_by_zero_in_deferred_Update:
  "TimeIt (\<lambda>w. w) (\<lambda>w c. of_nat (w - c)) (\<lambda>(d, w). Some (None, d, w + 7))
       (Data (- 1) 0 0 0 0 None 0) (100 :: nat)
     = Some (Inl DivideByZero, Data 0 0 7 0 0 None 0, 107) \<and>
   TimeIt (\<lambda>w. w) (\<lambda>w c. of_nat (w - c))
       (\<lambda>(d, w). Some (Some (UserPanic ''boom''), d, w + 7))
       (Data (- 1) 0 0 0 0 None 0) (100 :: nat)
     = Some (Inl DivideByZero, Data 0 0 7 0 0 None 0, 107)"
  by (simp add: TimeIt_def go_div_def word_sless_alt)

section \<open>Importing a marshaled record\<close>

text \<open>
  The reconstruction of m2 for any record: the last formula applied wins, and a formula
  skipped because Samples is at most 1 leaves the reconstruction made before it.
\<close>

lemma toData_m2_precedence:
  "m2 (toData dm (Data samples mean mx mn flags nxt m)) =
    (let n = (case dm_Samples dm of Some v \<Rightarrow> v | None \<Rightarrow> samples);
         by_sample_std_dev =
           (case dm_SampleStdDev dm of
              Some v \<Rightarrow> if 1 <s n then v * v * (n - 1) else m
            | None \<Rightarrow> m);
         by_std_dev =
           (case dm_StdDev dm of Some v \<Rightarrow> v * v * n | None \<Rightarrow> by_sample_std_dev);
         by_sample_variance =
           (case dm_SampleVariance dm of
              Some v \<Rightarrow> if 1 <s n then v * (n - 1) else by_std_dev
            | None \<Rightarrow> by_std_dev)
     in case dm_Variance dm of Some v \<Rightarrow> v * n | None \<Rightarrow> by_sample_variance)"
  by (simp add: Let_def split: option.split)

text \<open>
  C3. For a record with all four derived fields, \<^verbatim>\<open>toData\<close> runs the four
  reconstructions in the order sample_std_dev, std_dev, sample_variance, variance, each
  writing over the m2 before it, so that m2 ends as variance times Samples; all four
  flag bits are set in \<^verbatim>\<open>Flags\<close> whatever Samples is, also when the two sample
  formulas are skipped. The record samples = 3, mean = 50, max = 75, min = 25,
  variance = 416, sample_variance = 625, std_dev = 20, sample_std_dev = 25 imported into
  a fresh accumulator gives m2 = 1248 and Flags = 15.
\<close>

theorem toData_all_derived_fields:
  "toData \<lparr>dm_Samples = n, dm_Mean = a, dm_Max = b, dm_Min = c,
            dm_Variance = Some v, dm_SampleVariance = Some sv,
            dm_StdDev = Some sd, dm_SampleStdDev = Some ssd\<rparr>
          (Data samples mean mx mn flags nxt m)
     = Data (case n of Some x \<Rightarrow> x | None \<Rightarrow> samples)
         (case a of Some x \<Rightarrow> x | None \<Rightarrow> mean)
         (case b of Some x \<Rightarrow> x | None \<Rightarrow> mx)
         (case c of Some x \<Rightarrow> x | None \<Rightarrow> mn)
         ((((flags OR SampleStdDev_flag) OR StdDev_flag) OR SampleVariance_flag) OR Variance_flag)
         nxt
         (v * (case n of Some x \<Rightarrow> x | None \<Rightarrow> samples)) \<and>
   (((flags OR SampleStdDev_flag) OR StdDev_flag) OR SampleVariance_flag) OR Variance_flag
     = flags OR 15 \<and>
   toData \<lparr>dm_Samples = Some 3, dm_Mean = Some 50, dm_Max = Some 75, dm_Min = Some 25,
            dm_Variance = Some 416, dm_SampleVariance = Some 625,
            dm_StdDev = Some 20, dm_SampleStdDev = Some 25\<rparr> fresh
     = Data 3 50 75 25 15 None 1248 \<and>
   (25 * 25 * (3 - 1) = (1250 :: Duration) \<and> 20 * 20 * 3 = (1200 :: Duration) \<and>
    625 * (3 - 1) = (1250 :: Duration) \<and> 416 * 3 = (1248 :: Duration))"
proof (intro conjI)
  show "toData \<lparr>dm_Samples = n, dm_Mean = a, dm_Max = b, dm_Min = c,
            dm_Variance = Some v, dm_SampleVariance = Some sv,
            dm_StdDev = Some sd, dm_SampleStdDev = Some ssd\<rparr>
          (Data samples mean mx mn flags nxt m)
     = Data (case n of Some x \<Rightarrow> x | None \<Rightarrow> samples)
         (case a of Some x \<Rightarrow> x | None \<Rightarrow> mean)
         (case b of Some x \<Rightarrow> x | None \<Rightarrow> mx)
         (case c of Some x \<Rightarrow> x | None \<Rightarrow> mn)
         ((((flags OR SampleStdDev_flag) OR StdDev_flag) OR SampleVariance_flag) OR Variance_flag)
         nxt
         (v * (case n of Some x \<Rightarrow> x | None \<Rightarrow> samples))"
    by (simp add: Let_def)
  show "(((flags OR SampleStdDev_flag) OR StdDev_flag) OR SampleVariance_flag) OR Variance_flag
     = flags OR 15"
    by (simp add: SampleStdDev_flag_def StdDev_flag_def SampleVariance_flag_def
        Variance_flag_def or.assoc)
  show "toData \<lparr>dm_Samples = Some 3, dm_Mean = Some 50, dm_Max = Some 75, dm_Min = Some 25,
            dm_Variance = Some 416, dm_SampleVariance = Some 625,
            dm_StdDev = Some 20, dm_SampleStdDev = Some 25\<rparr> fresh
     = Data 3 50 75 25 15 None 1248"
    by (simp add: fresh_def SampleStdDev_flag_def StdDev_flag_def SampleVariance_flag_def
        Variance_flag_def)
qed simp_all

section \<open>Unmarshaling\<close>

text \<open>
  C7. When the decoder reports an error, \<^verbatim>\<open>UnmarshalJSON\<close> (on a text other than the
  literal \<^verbatim>\<open>null\<close>) and \<^verbatim>\<open>UnmarshalYAML\<close> return that error and the accumulator is
  the one they were given: no field is written, whatever the decoder had already put
  into the intermediate record.
\<close>

theorem Unmarshal_error_leaves_Data:
  "(text \<noteq> ''null'' \<and> fst (json_Unmarshal text dataMarshaled_zero) = Some err
      \<longrightarrow> UnmarshalJSON json_Unmarshal text d = (Some err, d)) \<and>
   (fst (unmarshal dataMarshaled_zero) = Some err
      \<longrightarrow> UnmarshalYAML unmarshal d = (Some err, d))"
  by (auto simp: UnmarshalJSON_def UnmarshalYAML_def split: prod.split option.split)

theorem Unmarshal_error_leaves_Data_witness:
  "''{samples: x}'' \<noteq> ''null'' \<and>
   fst ((\<lambda>t dm. (Some ''cannot unmarshal'', dm\<lparr>dm_Mean := Some 1\<rparr>))
          ''{samples: x}'' dataMarshaled_zero) = Some ''cannot unmarshal'' \<and>
   UnmarshalJSON (\<lambda>t dm. (Some ''cannot unmarshal'', dm\<lparr>dm_Mean := Some 1\<rparr>))
       ''{samples: x}'' fresh = (Some ''cannot unmarshal'', fresh) \<and>
   UnmarshalYAML (\<lambda>dm. (Some ''cannot unmarshal'', dm\<lparr>dm_Mean := Some 1\<rparr>)) fresh
     = (Some ''cannot unmarshal'', fresh)"
  using Unmarshal_error_leaves_Data
    [of "''{samples: x}''" "\<lambda>t dm. (Some ''cannot unmarshal'', dm\<lparr>dm_Mean := Some 1\<rparr>)"
        "''cannot unmarshal''" fresh
        "\<lambda>dm. (Some ''cannot unmarshal'', dm\<lparr>dm_Mean := Some 1\<rparr>)"]
  by simp

section \<open>Non-positive sample counts\<close>

text \<open>
  C10. \<^verbatim>\<open>Variance()\<close> is \<open>0\<close> whenever Samples is zero or negative and
  \<^verbatim>\<open>SampleVariance()\<close> is \<open>0\<close> whenever Samples is at most 1, negative counts
  included; whenever either one divides, its divisor is positive. A negative count is
  reachable: importing a record whose only field is samples = \<open>n\<close> sets Samples to \<open>n\<close>
  and leaves m2 as it was.
\<close>

theorem Variance_guards_nonpositive_Samples:
  "(Samples d \<le>s 0 \<longrightarrow> Variance d = Inr 0) \<and>
   (Samples d \<le>s 1 \<longrightarrow> SampleVariance d = Inr 0) \<and>
   (Variance d = Inr 0 \<or>
      (0 <s Samples d \<and> Variance d = Inr (sdiv64 (m2 d) (Samples d)))) \<and>
   (SampleVariance d = Inr 0 \<or>
      (0 <s Samples d - 1 \<and> SampleVariance d = Inr (sdiv64 (m2 d) (Samples d - 1)))) \<and>
   Samples (toData (dataMarshaled_zero\<lparr>dm_Samples := Some n\<rparr>) d) = n \<and>
   m2 (toData (dataMarshaled_zero\<lparr>dm_Samples := Some n\<rparr>) d) = m2 d"
proof -
  have a: "Samples d \<le>s 0 \<longrightarrow> Variance d = Inr 0" by (simp add: Variance_def)
  have b: "Samples d \<le>s 1 \<longrightarrow> SampleVariance d = Inr 0" by (simp add: SampleVariance_def)
  have c: "Variance d = Inr 0 \<or>
      (0 <s Samples d \<and> Variance d = Inr (sdiv64 (m2 d) (Samples d)))"
  proof (cases "Samples d \<le>s 0")
    case True
    then show ?thesis by (simp add: Variance_def)
  next
    case False
    then have pos: "0 <s Samples d" by (simp add: word_sle_eq word_sless_alt)
    then have "Samples d \<noteq> 0" by auto
    with False pos show ?thesis by (simp add: Variance_def go_div_def)
  qed
  have e: "SampleVariance d = Inr 0 \<or>
      (0 <s Samples d - 1 \<and> SampleVariance d = Inr (sdiv64 (m2 d) (Samples d - 1)))"
  proof (cases "Samples d \<le>s 1")
    case True
    then show ?thesis by (simp add: SampleVariance_def)
  next
    case False
    then have gt: "1 <s Samples d" by (simp add: word_sle_eq word_sless_alt)
    from False sint_pred_gt1 [OF gt] show ?thesis
      by (simp add: SampleVariance_def go_div_def)
  qed
  have f: "Samples (toData (dataMarshaled_zero\<lparr>dm_Samples := Some n\<rparr>) d) = n \<and>
      m2 (toData (dataMarshaled_zero\<lparr>dm_Samples := Some n\<rparr>) d) = m2 d"
    by (cases d) (simp add: dataMarshaled_zero_def)
  from a b c e f show ?thesis by blast
qed

theorem Variance_guards_nonpositive_Samples_witness:
  "Samples (toData (dataMarshaled_zero\<lparr>dm_Samples := Some (- 3)\<rparr>) (Data 2 5 9 1 0 None 50)) = - 3 \<and>
   m2 (toData (dataMarshaled_zero\<lparr>dm_Samples := Some (- 3)\<rparr>) (Data 2 5 9 1 0 None 50)) = 50 \<and>
   Samples (toData (dataMarshaled_zero\<lparr>dm_Samples := Some (- 3)\<rparr>) (Data 2 5 9 1 0 None 50)) \<le>s 0 \<and>
   Variance (toData (dataMarshaled_zero\<lparr>dm_Samples := Some (- 3)\<rparr>) (Data 2 5 9 1 0 None 50))
     = Inr 0 \<and>
   SampleVariance (toData (dataMarshaled_zero\<lparr>dm_Samples := Some (- 3)\<rparr>) (Data 2 5 9 1 0 None 50))
     = Inr 0"
proof -
  let ?d = "toData (dataMarshaled_zero\<lparr>dm_Samples := Some (- 3)\<rparr>) (Data 2 5 9 1 0 None 50)"
  have s: "Samples ?d = - 3" and m: "m2 ?d = 50"
    by (simp_all add: dataMarshaled_zero_def)
  have le: "Samples ?d \<le>s 0" and le1: "Samples ?d \<le>s 1"
    unfolding s by (simp_all add: word_sle_eq)
  from Variance_guards_nonpositive_Samples [of ?d] le le1
  have "Variance ?d = Inr 0 \<and> SampleVariance ?d = Inr 0" by blast
  with s m le show ?thesis by blast
qed

section \<open>Standard deviation\<close>

text \<open>
  Integers and multiples of \<open>1 / 2 ^ 27\<close> with a significand below \<open>2 ^ 53\<close> are binary64
  values, and a value nearest to a binary64 value is that value.
\<close>

lemma int_in_binary64: "\<bar>k\<bar> < 2 ^ 53 \<Longrightarrow> real_of_int k \<in> binary64"
  unfolding binary64_def
  by (rule CollectI, rule exI [of _ k], rule exI [of _ 0]) simp

lemma scaled_in_binary64: "\<bar>k\<bar> < 2 ^ 53 \<Longrightarrow> real_of_int k / 2 ^ 27 \<in> binary64"
proof -
  assume k: "\<bar>k\<bar> < 2 ^ 53"
  have "(2::real) powr real_of_int (- 27) = 1 / 2 ^ 27"
    by (simp add: powr_minus_divide)
  then have "real_of_int k / 2 ^ 27 = real_of_int k * 2 powr real_of_int (- 27)" by simp
  with k show ?thesis unfolding binary64_def
    by (intro CollectI exI [of _ k] exI [of _ "- 27"]) simp
qed

lemma nearest64_exact: "x \<in> binary64 \<Longrightarrow> nearest64 x y \<Longrightarrow> y = x"
  unfolding nearest64_def by force

lemma nearest64_self: "x \<in> binary64 \<Longrightarrow> nearest64 x x"
  unfolding nearest64_def by simp


text \<open>
  Rounding the root of an integer below \<open>2 ^ 52\<close> to nearest does not change its integer
  part: the rounded root is not below the integer \<open>r\<close> under the root, which is a
  binary64 value, and the root stays more than half a unit in the last place under
  \<open>r + 1\<close>, so that rounding does not reach \<open>r + 1\<close>.
\<close>

lemma nearest64_sqrt_floor:
  assumes n0: "0 \<le> n" and n52: "n < 2 ^ 52"
    and near: "nearest64 (sqrt (real_of_int n)) y"
  shows "\<lfloor>y\<rfloor> = \<lfloor>sqrt (real_of_int n)\<rfloor>"
proof -
  define x where "x = sqrt (real_of_int n)"
  define r where "r = \<lfloor>x\<rfloor>"
  define a where "a = real_of_int (r + 1)"
  have x0: "0 \<le> x" using n0 by (simp add: x_def)
  have xx: "x * x = real_of_int n" using n0 by (simp add: x_def)
  have r0: "0 \<le> r" using x0 by (simp add: r_def)
  have rx: "real_of_int r \<le> x" by (simp add: r_def)
  have xa: "x < a" unfolding a_def r_def by linarith
  have "real_of_int n < (2 ^ 26)\<^sup>2"
  proof -
    have "real_of_int n < real_of_int (2 ^ 52)" using n52 by (simp only: of_int_less_iff)
    then show ?thesis by simp
  qed
  then have "x < 2 ^ 26" unfolding x_def by (intro real_less_lsqrt) simp_all
  with rx have "real_of_int r < real_of_int (2 ^ 26)" by simp
  then have r26: "r < 2 ^ 26" by (simp only: of_int_less_iff)
  have a1: "1 \<le> a" and a26: "a \<le> 2 ^ 26"
  proof -
    show "1 \<le> a" using r0 by (simp add: a_def)
    have "r + 1 \<le> 2 ^ 26" using r26 by simp
    then have "real_of_int (r + 1) \<le> real_of_int (2 ^ 26)" by (simp only: of_int_le_iff)
    then show "a \<le> 2 ^ 26" by (simp add: a_def)
  qed
  \<comment> \<open>the root is not below the integer under it\<close>
  have rin: "real_of_int r \<in> binary64"
    using r0 r26 by (intro int_in_binary64) simp
  have lo: "real_of_int r \<le> y"
  proof -
    from near rin have "\<bar>y - x\<bar> \<le> \<bar>real_of_int r - x\<bar>"
      unfolding nearest64_def x_def by blast
    with rx show ?thesis by linarith
  qed
  \<comment> \<open>and stays below the next integer\<close>
  define k where "k = (r + 1) * 2 ^ 27 - 1"
  define z where "z = real_of_int k / 2 ^ 27"
  have za: "z = a - 1 / 2 ^ 27"
    by (simp add: z_def k_def a_def field_simps)
  have kin: "\<bar>k\<bar> < 2 ^ 53"
  proof -
    have "0 \<le> k" using r0 by (simp add: k_def)
    moreover have "(r + 1) * 2 ^ 27 \<le> 2 ^ 26 * (2 ^ 27 :: int)"
      using r26 by (intro mult_right_mono) simp_all
    then have "k < 2 ^ 53" by (simp add: k_def)
    ultimately show ?thesis by simp
  qed
  then have zin: "z \<in> binary64" unfolding z_def by (rule scaled_in_binary64)
  have xt: "x < a - 1 / 2 ^ 28"
  proof -
    have nle: "real_of_int n \<le> a * a - 1"
    proof -
      have "x * x < a * a" using x0 xa by (intro mult_strict_mono) simp_all
      then have "real_of_int n < real_of_int ((r + 1) * (r + 1))"
        by (simp add: xx a_def)
      then have "n < (r + 1) * (r + 1)" by (simp only: of_int_less_iff)
      then have "n \<le> (r + 1) * (r + 1) - 1" by simp
      then have "real_of_int n \<le> real_of_int ((r + 1) * (r + 1) - 1)"
        by (simp only: of_int_le_iff)
      then show ?thesis by (simp add: a_def)
    qed
    have "(a - 1 / 2 ^ 28)\<^sup>2 = a * a - a / 2 ^ 27 + (1 / 2 ^ 28)\<^sup>2"
      by (simp add: power2_diff power2_eq_square field_simps)
    moreover have "a / 2 ^ 27 \<le> 1 / 2" using a26 by (simp add: field_simps)
    moreover have "0 < (1 / 2 ^ 28 :: real)\<^sup>2" by simp
    ultimately have "a * a - 1 < (a - 1 / 2 ^ 28)\<^sup>2" by linarith
    with nle have "real_of_int n < (a - 1 / 2 ^ 28)\<^sup>2" by linarith
    moreover have "0 \<le> a - 1 / 2 ^ 28" using a1 by (simp add: field_simps)
    ultimately show ?thesis unfolding x_def by (intro real_less_lsqrt)
  qed
  have hi: "y < a"
  proof -
    from near zin have "\<bar>y - x\<bar> \<le> \<bar>z - x\<bar>"
      unfolding nearest64_def x_def by blast
    moreover have "\<bar>z - x\<bar> < a - x" using xt unfolding za by (simp add: abs_less_iff) 
    ultimately show ?thesis by linarith
  qed
  from lo hi have "\<lfloor>y\<rfloor> = r" unfolding a_def by (intro floor_unique) simp_all
  then show ?thesis by (simp add: r_def x_def)
qed


lemma floor_sqrt_in_i64:
  assumes "0 \<le> n" and "n < 2 ^ 52"
  shows "0 \<le> \<lfloor>sqrt (real_of_int n)\<rfloor>" and "in_i64 \<lfloor>sqrt (real_of_int n)\<rfloor>"
proof -
  show a: "0 \<le> \<lfloor>sqrt (real_of_int n)\<rfloor>" using assms by simp
  have "real_of_int n < (2 ^ 26)\<^sup>2"
  proof -
    have "real_of_int n < real_of_int (2 ^ 52)" using assms by (simp only: of_int_less_iff)
    then show ?thesis by simp
  qed
  then have "sqrt (real_of_int n) < 2 ^ 26" by (intro real_less_lsqrt) simp_all
  then have "\<lfloor>sqrt (real_of_int n)\<rfloor> < 2 ^ 26" by (simp add: floor_less_iff)
  moreover have "(2 :: int) ^ 26 < 2 ^ 63" by simp
  ultimately show "in_i64 \<lfloor>sqrt (real_of_int n)\<rfloor>"
    using a unfolding in_i64_def by linarith
qed

lemma StdDev_exact_range:
  assumes v0: "0 \<le> sint v" and v52: "sint v < 2 ^ 52"
    and cr: "correctly_rounded_at float64 math_Sqrt v"
  shows "Duration_of_float (math_Sqrt (float64 v)) = word_of_int \<lfloor>sqrt (real_of_int (sint v))\<rfloor>"
    and "\<lfloor>math_Sqrt (float64 v)\<rfloor> = \<lfloor>sqrt (real_of_int (sint v))\<rfloor>"
    and "sint (Duration_of_float (math_Sqrt (float64 v))) = \<lfloor>math_Sqrt (float64 v)\<rfloor>"
proof -
  have "\<bar>sint v\<bar> < 2 ^ 53" using v0 v52 by simp
  then have "real_of_int (sint v) \<in> binary64" by (rule int_in_binary64)
  with cr have f: "float64 v = real_of_int (sint v)"
    unfolding correctly_rounded_at_def by (blast intro: nearest64_exact)
  with cr have "nearest64 (sqrt (real_of_int (sint v))) (math_Sqrt (float64 v))"
    unfolding correctly_rounded_at_def by simp
  from nearest64_sqrt_floor [OF v0 v52 this]
  show fl: "\<lfloor>math_Sqrt (float64 v)\<rfloor> = \<lfloor>sqrt (real_of_int (sint v))\<rfloor>" .
  from floor_sqrt_in_i64 [OF v0 v52]
  have r0: "0 \<le> \<lfloor>math_Sqrt (float64 v)\<rfloor>" and ri: "in_i64 \<lfloor>math_Sqrt (float64 v)\<rfloor>"
    unfolding fl by simp_all
  from r0 have "0 \<le> math_Sqrt (float64 v)" by simp
  then have d: "Duration_of_float (math_Sqrt (float64 v)) = word_of_int \<lfloor>math_Sqrt (float64 v)\<rfloor>"
    by (simp add: Duration_of_float_def)
  then show "Duration_of_float (math_Sqrt (float64 v)) = word_of_int \<lfloor>sqrt (real_of_int (sint v))\<rfloor>"
    by (simp only: fl)
  from ri show "sint (Duration_of_float (math_Sqrt (float64 v))) = \<lfloor>math_Sqrt (float64 v)\<rfloor>"
    unfolding d by (rule sint_word_of_int_exact)
qed

lemma sqrt_64: "sqrt (64 :: real) = 8"
  by (rule real_sqrt_unique) simp_all

lemma Variance_total: "\<exists>v. Variance d = Inr v"
proof (cases "Samples d \<le>s 0")
  case True
  then show ?thesis by (simp add: Variance_def)
next
  case False
  then have "0 <s Samples d" by (simp add: word_sle_eq word_sless_alt)
  then have "Samples d \<noteq> 0" by auto
  with False show ?thesis by (simp add: Variance_def go_div_def)
qed

text \<open>
  C9. \<^verbatim>\<open>StdDev()\<close> never panics and returns the truncation to a Duration of the
  floating-point square root of the floating-point conversion of \<^verbatim>\<open>Variance()\<close>. For a
  variance from 0 up to \<open>2 ^ 52\<close>, with conversion and root rounded to nearest as IEEE 754
  has them, that is the integer part of the exact square root of the variance. With
  Samples = 1 and m2 = 64 it is 8, and with no samples it is 0 whatever m2 is.
\<close>

theorem StdDev_truncated_root:
  "(\<exists>v. Variance d = Inr v \<and>
        StdDev float64 math_Sqrt d = Inr (Duration_of_float (math_Sqrt (float64 v)))) \<and>
   (Variance d = Inr v \<and> 0 \<le> sint v \<and> sint v < 2 ^ 52 \<and>
      correctly_rounded_at float64 math_Sqrt v \<longrightarrow>
        StdDev float64 math_Sqrt d = Inr (Duration_of_float (math_Sqrt (float64 v))) \<and>
        sint (Duration_of_float (math_Sqrt (float64 v))) = \<lfloor>math_Sqrt (float64 v)\<rfloor> \<and>
        \<lfloor>math_Sqrt (float64 v)\<rfloor> = \<lfloor>sqrt (real_of_int (sint v))\<rfloor>) \<and>
   (correctly_rounded_at float64 math_Sqrt 64 \<longrightarrow>
      StdDev float64 math_Sqrt (Data 1 mean mx mn flags nxt 64) = Inr 8) \<and>
   (correctly_rounded_at float64 math_Sqrt 0 \<longrightarrow>
      StdDev float64 math_Sqrt (Data 0 mean mx mn flags nxt m) = Inr 0)"
proof (intro conjI impI)
  from Variance_total [of d]
  show "\<exists>v. Variance d = Inr v \<and>
        StdDev float64 math_Sqrt d = Inr (Duration_of_float (math_Sqrt (float64 v)))"
    by (auto simp: StdDev_def)
next
  assume h: "Variance d = Inr v \<and> 0 \<le> sint v \<and> sint v < 2 ^ 52 \<and>
      correctly_rounded_at float64 math_Sqrt v"
  then show "StdDev float64 math_Sqrt d = Inr (Duration_of_float (math_Sqrt (float64 v)))"
    by (simp add: StdDev_def)
  from h show "sint (Duration_of_float (math_Sqrt (float64 v))) = \<lfloor>math_Sqrt (float64 v)\<rfloor>"
    by (intro StdDev_exact_range(3)) simp_all
  from h show "\<lfloor>math_Sqrt (float64 v)\<rfloor> = \<lfloor>sqrt (real_of_int (sint v))\<rfloor>"
    by (intro StdDev_exact_range(2)) simp_all
next
  assume cr: "correctly_rounded_at float64 math_Sqrt 64"
  have v: "Variance (Data 1 mean mx mn flags nxt 64) = Inr 64"
    by (simp add: Variance_def go_div_def sdiv64_one word_sle_eq)
  have "Duration_of_float (math_Sqrt (float64 64)) = word_of_int \<lfloor>sqrt (real_of_int (sint (64 :: Duration)))\<rfloor>"
    using cr by (intro StdDev_exact_range(1)) simp_all
  then have "Duration_of_float (math_Sqrt (float64 64)) = 8" by (simp add: sqrt_64)
  with v show "StdDev float64 math_Sqrt (Data 1 mean mx mn flags nxt 64) = Inr 8"
    by (simp add: StdDev_def)
next
  assume cr: "correctly_rounded_at float64 math_Sqrt 0"
  have v: "Variance (Data 0 mean mx mn flags nxt m) = Inr 0"
    by (simp add: Variance_def)
  have "Duration_of_float (math_Sqrt (float64 0)) = word_of_int \<lfloor>sqrt (real_of_int (sint (0 :: Duration)))\<rfloor>"
    using cr by (intro StdDev_exact_range(1)) simp_all
  then have "Duration_of_float (math_Sqrt (float64 0)) = 0" by simp
  with v show "StdDev float64 math_Sqrt (Data 0 mean mx mn flags nxt m) = Inr 0"
    by (simp add: StdDev_def)
qed

lemma correctly_rounded_at_square:
  assumes "sint v = k * k" and "0 \<le> k" and "k < 2 ^ 26"
  shows "correctly_rounded_at (\<lambda>v. real_of_int (sint v)) sqrt v"
proof -
  have "k * k < 2 ^ 26 * (2 ^ 26 :: int)" 
    using assms by (intro mult_strict_mono) simp_all
  then have "\<bar>sint v\<bar> < 2 ^ 53" using assms by simp
  then have a: "real_of_int (sint v) \<in> binary64" by (rule int_in_binary64)
  have "sqrt (real_of_int (sint v)) = real_of_int k"
    using assms by (intro real_sqrt_unique) (simp_all add: power2_eq_square)
  moreover have "real_of_int k \<in> binary64" using assms by (intro int_in_binary64) simp
  ultimately have b: "sqrt (real_of_int (sint v)) \<in> binary64" by simp
  from a b show ?thesis unfolding correctly_rounded_at_def
    by (simp add: nearest64_self)
qed

theorem StdDev_truncated_root_witness:
  "correctly_rounded_at (\<lambda>v. real_of_int (sint v)) sqrt 64 \<and>
   StdDev (\<lambda>v. real_of_int (sint v)) sqrt (Data 1 50 50 50 0 None 64) = Inr 8 \<and>
   correctly_rounded_at (\<lambda>v. real_of_int (sint v)) sqrt 0 \<and>
   StdDev (\<lambda>v. real_of_int (sint v)) sqrt (Data 0 0 0 0 0 None 50) = Inr 0 \<and>
   Variance (Data 2 50 75 25 0 None 50) = Inr 25 \<and> 0 \<le> sint (25 :: Duration) \<and>
   sint (25 :: Duration) < 2 ^ 52 \<and>
   correctly_rounded_at (\<lambda>v. real_of_int (sint v)) sqrt 25 \<and>
   StdDev (\<lambda>v. real_of_int (sint v)) sqrt (Data 2 50 75 25 0 None 50)
     = Inr (Duration_of_float (sqrt 25)) \<and>
   sint (Duration_of_float (sqrt 25)) = 5"
proof -
  have c64: "correctly_rounded_at (\<lambda>v. real_of_int (sint v)) sqrt 64"
    by (rule correctly_rounded_at_square [of _ 8]) simp_all
  have c0: "correctly_rounded_at (\<lambda>v. real_of_int (sint v)) sqrt 0"
    by (rule correctly_rounded_at_square [of _ 0]) simp_all
  have c25: "correctly_rounded_at (\<lambda>v. real_of_int (sint v)) sqrt 25"
    by (rule correctly_rounded_at_square [of _ 5]) simp_all
  have v: "Variance (Data 2 50 75 25 0 None 50) = Inr 25"
    by (simp add: Variance_def go_div_def sdiv64_def word_sle_eq signed_divide_int_def)
  have s25: "sqrt (25 :: real) = 5" by (rule real_sqrt_unique) simp_all
  note t = StdDev_truncated_root [where ?float64.0 = "\<lambda>v. real_of_int (sint v)" and math_Sqrt = sqrt]
  from t [where d = "Data 2 50 75 25 0 None 50" and v = 25] v c25
  have g: "StdDev (\<lambda>v. real_of_int (sint v)) sqrt (Data 2 50 75 25 0 None 50)
     = Inr (Duration_of_float (sqrt 25)) \<and> sint (Duration_of_float (sqrt 25)) = 5"
    by (simp add: s25)
  from t [where mean = 50 and mx = 50 and mn = 50 and flags = 0 and nxt = None] c64
  have i64': "StdDev (\<lambda>v. real_of_int (sint v)) sqrt (Data 1 50 50 50 0 None 64) = Inr 8"
    by blast
  from t [where mean = 0 and mx = 0 and mn = 0 and flags = 0 and nxt = None and m = 50] c0
  have i0: "StdDev (\<lambda>v. real_of_int (sint v)) sqrt (Data 0 0 0 0 0 None 50) = Inr 0"
    by blast
  from c64 c0 c25 v g i64' i0 show ?thesis by simp
qed

end
